theory Spec2Isabelle
  imports Main "HOL-Library.Word" "HOL-Library.AList"
begin

section \<open>The execution context: engine-worker.js\<close>

subsection \<open>Bytes, linear memory, the export table\<close>

type_synonym byte = "8 word"
type_synonym bytes = "byte list"
type_synonym i32 = "32 word"

text \<open>
  An instantiated module: its linear memory (\<open>exports.memory.buffer\<close>, read and written
  by the worker through typed-array views) with its length in bytes
  (\<open>buffer.byteLength\<close>), and whatever private state the module keeps (globals, allocator
  bookkeeping).
\<close>

record 'g wasm_instance =
  memory :: "nat \<Rightarrow> byte"
  mem_size :: nat
  globals :: 'g

text \<open>
  \<open>instance.exports\<close>: the names the module exports (\<open>present\<close>) and the behaviour of each
  export of the engine standard. An export function runs on the instance and may change
  it (it may grow the memory); it returns its i32 result, or throws (a trap; the \<open>Inl\<close>
  message). \<open>sb_alloc\<close> reports failure by returning 0. The functions of exports that are
  not \<open>present\<close> are never called by the model.
\<close>

record 'g exports =
  present :: "string list"
  sb_alloc :: "nat \<Rightarrow> 'g wasm_instance \<Rightarrow> (string + i32) \<times> 'g wasm_instance"
  sb_free :: "i32 \<Rightarrow> nat \<Rightarrow> 'g wasm_instance \<Rightarrow> (string + unit) \<times> 'g wasm_instance"
  sb_get_id :: "i32 \<Rightarrow> 'g wasm_instance \<Rightarrow> (string + i32) \<times> 'g wasm_instance"
  sb_get_name :: "i32 \<Rightarrow> 'g wasm_instance \<Rightarrow> (string + i32) \<times> 'g wasm_instance"
  sb_get_desc :: "i32 \<Rightarrow> 'g wasm_instance \<Rightarrow> (string + i32) \<times> 'g wasm_instance"
  sb_is_binary_safe :: "'g wasm_instance \<Rightarrow> (string + i32) \<times> 'g wasm_instance"
  sb_is_self_inverse :: "'g wasm_instance \<Rightarrow> (string + i32) \<times> 'g wasm_instance"
  sb_is_reversible :: "'g wasm_instance \<Rightarrow> (string + i32) \<times> 'g wasm_instance"
  sb_encode :: "i32 \<Rightarrow> nat \<Rightarrow> i32 \<Rightarrow> 'g wasm_instance \<Rightarrow> (string + i32) \<times> 'g wasm_instance"
  sb_decode :: "i32 \<Rightarrow> nat \<Rightarrow> i32 \<Rightarrow> 'g wasm_instance \<Rightarrow> (string + i32) \<times> 'g wasm_instance"

text \<open>
  What the worker takes from the JavaScript platform: \<open>TextDecoder\<close>, and the message text
  of the errors the platform itself throws. A typed-array view
  \<open>new UintNArray(buffer, offset, length)\<close> throws a RangeError when the offset is negative,
  is not a multiple of the element size, or the view leaves the buffer;
  \<open>target.set(source, offset)\<close> throws a RangeError when the source does not fit at the
  offset; calling \<open>undefined\<close> and reading a property of \<open>undefined\<close> throw a TypeError. A
  pointer the plugin returns is an i32, which JavaScript sees as a signed number.
\<close>

datatype fault =
    BadView nat int nat nat   \<comment> \<open>element size, offset, length, \<open>buffer.byteLength\<close>\<close>
  | BadSet int nat nat        \<comment> \<open>offset, \<open>source.length\<close>, \<open>target.length\<close>\<close>
  | NotAFunction string       \<comment> \<open>the expression called\<close>
  | NoProperty string         \<comment> \<open>the property read of \<open>undefined\<close>\<close>

record platform =
  TextDecoder :: "bytes \<Rightarrow> string"
  fault_message :: "fault \<Rightarrow> string"

definition view_ok :: "nat \<Rightarrow> i32 \<Rightarrow> nat \<Rightarrow> nat \<Rightarrow> bool" where
  "view_ok elem p n len \<longleftrightarrow>
     unat p < 2 ^ 31 \<and> unat p mod elem = 0 \<and> unat p + n * elem \<le> len"

text \<open>\<open>new Uint32Array(buffer, p, 1)[0]\<close>: four bytes, little-endian, unsigned.\<close>

definition read_u32 :: "platform \<Rightarrow> 'g wasm_instance \<Rightarrow> i32 \<Rightarrow> string + nat" where
  "read_u32 pl s p =
     (if view_ok 4 p 1 (mem_size s)
      then Inr (unat (memory s (unat p)) + 256 * unat (memory s (unat p + 1))
                + 65536 * unat (memory s (unat p + 2))
                + 16777216 * unat (memory s (unat p + 3)))
      else Inl (fault_message pl (BadView 4 (sint p) 1 (mem_size s))))"

text \<open>\<open>new Uint8Array(buffer, p, n)\<close>, copied out.\<close>

definition read_bytes :: "platform \<Rightarrow> 'g wasm_instance \<Rightarrow> i32 \<Rightarrow> nat \<Rightarrow> string + bytes" where
  "read_bytes pl s p n =
     (if view_ok 1 p n (mem_size s)
      then Inr (map (\<lambda>i. memory s (unat p + i)) [0..<n])
      else Inl (fault_message pl (BadView 1 (sint p) n (mem_size s))))"

text \<open>\<open>new Uint8Array(buffer).set(new Uint8Array(chunk), p)\<close>.\<close>

definition write_bytes ::
  "platform \<Rightarrow> bytes \<Rightarrow> i32 \<Rightarrow> 'g wasm_instance \<Rightarrow> string + 'g wasm_instance" where
  "write_bytes pl bs p s =
     (if unat p < 2 ^ 31 \<and> unat p + length bs \<le> mem_size s
      then Inr (s\<lparr>memory :=
                   (\<lambda>a. if unat p \<le> a \<and> a < unat p + length bs then bs ! (a - unat p)
                        else memory s a)\<rparr>)
      else Inl (fault_message pl (BadSet (sint p) (length bs) (mem_size s))))"

subsection \<open>Messages between host and context\<close>

datatype msg_type = Load | Encode | Decode

datatype payload =
    LoadPayload string                    \<comment> \<open>\<open>{ wasmUrl }\<close>\<close>
  | ChunkPayload bytes bool "nat option"  \<comment> \<open>\<open>{ chunk, isLast, totalChunks }\<close>\<close>

record request =
  req_id :: nat
  req_type :: msg_type
  req_payload :: payload

record engine_info =
  eid :: string
  ename :: string
  desc :: string
  binarySafe :: bool
  selfInverse :: bool
  reversible :: bool

datatype response =
    Loaded engine_info
  | ChunkMsg bytes
  | ResultMsg
  | ErrorMsg string

type_synonym message = "nat \<times> response"

subsection \<open>The worker\<close>

text \<open>
  The calls the worker makes into the plugin, in order, each with what it returned:
  \<open>sb_alloc(n)\<close>, \<open>sb_free(p, n)\<close>, a string getter, a capability flag, the codec; and
  \<open>Trap\<close> for a call of \<open>sb_alloc\<close>, \<open>sb_free\<close>, a getter or a flag that threw.
\<close>

datatype abi_call =
    Alloc nat i32
  | Free i32 nat
  | Getter string i32
  | Flag string i32
  | Codec msg_type "string + i32"
  | Trap string

text \<open>
  The worker's two module-level variables, \<open>wasmExports\<close> (with the live instance behind
  the export table) and \<open>engineInfo\<close>, and the record of its calls into the plugin.
\<close>

record 'g worker =
  wasmExports :: "('g exports \<times> 'g wasm_instance) option"
  engineInfo :: "engine_info option"
  abi_log :: "abi_call list"

definition new_worker :: "'g worker" where
  "new_worker = \<lparr>wasmExports = None, engineInfo = None, abi_log = []\<rparr>"

definition required :: "string list" where
  "required = [''sb_encode'', ''sb_alloc'', ''sb_free'', ''sb_get_id'',
               ''sb_is_binary_safe'', ''sb_is_self_inverse'', ''sb_is_reversible'', ''memory'']"

text \<open>
  A step of the worker runs on the instance and the call record and gives a value or the
  message of what it threw; \<open>and_then\<close> runs the next step on the value, and passes a
  throw on.
\<close>

type_synonym 'g st = "'g wasm_instance \<times> abi_call list"

definition and_then ::
  "(string + 'a) \<times> 'g st \<Rightarrow> ('a \<Rightarrow> 'g st \<Rightarrow> (string + 'b) \<times> 'g st) \<Rightarrow> (string + 'b) \<times> 'g st" where
  "and_then r f = (case r of (Inl e, sl) \<Rightarrow> (Inl e, sl) | (Inr a, sl) \<Rightarrow> f a sl)"

definition call_alloc :: "'g exports \<Rightarrow> nat \<Rightarrow> 'g st \<Rightarrow> (string + i32) \<times> 'g st" where
  "call_alloc ex n sl =
     (case sb_alloc ex n (fst sl) of
        (Inl e, s) \<Rightarrow> (Inl e, s, snd sl @ [Trap ''sb_alloc''])
      | (Inr p, s) \<Rightarrow> (Inr p, s, snd sl @ [Alloc n p]))"

definition call_free :: "'g exports \<Rightarrow> i32 \<Rightarrow> nat \<Rightarrow> 'g st \<Rightarrow> (string + unit) \<times> 'g st" where
  "call_free ex p n sl =
     (case sb_free ex p n (fst sl) of
        (Inl e, s) \<Rightarrow> (Inl e, s, snd sl @ [Trap ''sb_free''])
      | (Inr u, s) \<Rightarrow> (Inr u, s, snd sl @ [Free p n]))"

definition call_getter ::
  "string \<Rightarrow> (i32 \<Rightarrow> 'g wasm_instance \<Rightarrow> (string + i32) \<times> 'g wasm_instance) \<Rightarrow> i32 \<Rightarrow> 'g st \<Rightarrow>
   (string + i32) \<times> 'g st" where
  "call_getter fnName getter lenPtr sl =
     (case getter lenPtr (fst sl) of
        (Inl e, s) \<Rightarrow> (Inl e, s, snd sl @ [Trap fnName])
      | (Inr ptr, s) \<Rightarrow> (Inr ptr, s, snd sl @ [Getter fnName ptr]))"

definition call_flag ::
  "string \<Rightarrow> ('g wasm_instance \<Rightarrow> (string + i32) \<times> 'g wasm_instance) \<Rightarrow> 'g st \<Rightarrow>
   (string + i32) \<times> 'g st" where
  "call_flag fnName flag sl =
     (case flag (fst sl) of
        (Inl e, s) \<Rightarrow> (Inl e, s, snd sl @ [Trap fnName])
      | (Inr v, s) \<Rightarrow> (Inr v, s, snd sl @ [Flag fnName v]))"

text \<open>\<open>readStr\<close>.\<close>

definition readStr :: "platform \<Rightarrow> 'g wasm_instance \<Rightarrow> i32 \<Rightarrow> i32 \<Rightarrow> string + string" where
  "readStr pl s ptr lenPtr =
     (case read_u32 pl s lenPtr of
        Inl e \<Rightarrow> Inl e
      | Inr len \<Rightarrow>
          if len = 0 then Inr []
          else (case read_bytes pl s ptr len of
                  Inl e \<Rightarrow> Inl e
                | Inr bs \<Rightarrow> Inr (TextDecoder pl bs)))"

text \<open>
  The four lines the load branch repeats for the id, the name and the description:
  allocate the length cell, call the getter, read the string, free the cell. The cell's
  pointer is not compared with 0.
\<close>

definition get_string ::
  "platform \<Rightarrow> 'g exports \<Rightarrow> string \<Rightarrow>
   (i32 \<Rightarrow> 'g wasm_instance \<Rightarrow> (string + i32) \<times> 'g wasm_instance) \<Rightarrow>
   'g st \<Rightarrow> (string + string) \<times> 'g st" where
  "get_string pl ex fnName getter sl =
     and_then (call_alloc ex 4 sl) (\<lambda>lenPtr sl1.
     and_then (call_getter fnName getter lenPtr sl1) (\<lambda>ptr sl2.
     and_then (readStr pl (fst sl2) ptr lenPtr, sl2) (\<lambda>str sl3.
     and_then (call_free ex lenPtr 4 sl3) (\<lambda>u sl4.
     (Inr str, sl4)))))"

text \<open>Lines 26 to 45: the id, then the name and the description when their getters exist.\<close>

definition read_metadata ::
  "platform \<Rightarrow> 'g exports \<Rightarrow> 'g st \<Rightarrow> (string + string \<times> string \<times> string) \<times> 'g st" where
  "read_metadata pl ex sl =
     and_then (get_string pl ex ''sb_get_id'' (sb_get_id ex) sl) (\<lambda>engineId sl1.
     and_then (if ''sb_get_name'' \<in> set (present ex)
               then get_string pl ex ''sb_get_name'' (sb_get_name ex) sl1
               else (Inr engineId, sl1)) (\<lambda>engineName sl2.
     and_then (if ''sb_get_desc'' \<in> set (present ex)
               then get_string pl ex ''sb_get_desc'' (sb_get_desc ex) sl2
               else (Inr [], sl2)) (\<lambda>engineDesc sl3.
     (Inr (engineId, engineName, engineDesc), sl3))))"

text \<open>Lines 26 to 51: the metadata, then the three flags, each compared with 1.\<close>

definition read_info :: "platform \<Rightarrow> 'g exports \<Rightarrow> 'g st \<Rightarrow> (string + engine_info) \<times> 'g st" where
  "read_info pl ex sl =
     and_then (read_metadata pl ex sl) (\<lambda>names sl3.
     and_then (call_flag ''sb_is_binary_safe'' (sb_is_binary_safe ex) sl3) (\<lambda>b sl4.
     and_then (call_flag ''sb_is_self_inverse'' (sb_is_self_inverse ex) sl4) (\<lambda>s sl5.
     and_then (call_flag ''sb_is_reversible'' (sb_is_reversible ex) sl5) (\<lambda>r sl6.
     (Inr \<lparr>eid = fst names, ename = fst (snd names), desc = snd (snd names),
           binarySafe = (b = 1), selfInverse = (s = 1), reversible = (r = 1)\<rparr>, sl6)))))"

text \<open>
  The \<open>load\<close> branch. \<open>fetched\<close> is what fetch, compile and instantiate gave for the URL:
  the exception's message, or the instance's export table and initial state. Whatever is
  thrown is caught and posted as \<open>error\<close>, and leaves \<open>wasmExports\<close> and \<open>engineInfo\<close> as
  they were.
\<close>

definition worker_load ::
  "platform \<Rightarrow> (string + 'g exports \<times> 'g wasm_instance) \<Rightarrow> 'g worker \<Rightarrow>
   response \<times> 'g worker" where
  "worker_load pl fetched w =
     (case fetched of
        Inl err \<Rightarrow> (ErrorMsg err, w)
      | Inr (ex, s0) \<Rightarrow>
          (case find (\<lambda>r. r \<notin> set (present ex)) required of
             Some r \<Rightarrow> (ErrorMsg (''Missing export: '' @ r), w)
           | None \<Rightarrow>
               (case read_info pl ex (s0, abi_log w) of
                  (Inl e, s, l) \<Rightarrow> (ErrorMsg e, w\<lparr>abi_log := l\<rparr>)
                | (Inr info, s, l) \<Rightarrow>
                    (Loaded info,
                     \<lparr>wasmExports = Some (ex, s), engineInfo = Some info, abi_log = l\<rparr>))))"

text \<open>
  Calling \<open>wasmExports[fnName]\<close>: an export that is absent is \<open>undefined\<close>, and calling it
  throws a TypeError.
\<close>

definition call_codec ::
  "platform \<Rightarrow> 'g exports \<Rightarrow> msg_type \<Rightarrow> i32 \<Rightarrow> nat \<Rightarrow> i32 \<Rightarrow> 'g st \<Rightarrow> (string + i32) \<times> 'g st" where
  "call_codec pl ex ty inPtr n outLenPtr sl =
     (let fnName = (if ty = Encode then ''sb_encode'' else ''sb_decode'') in
      if fnName \<notin> set (present ex)
      then (Inl (fault_message pl (NotAFunction ''wasmExports[fnName]'')), sl)
      else
        (let (res, s') = (if ty = Encode then sb_encode ex inPtr n outLenPtr (fst sl)
                          else sb_decode ex inPtr n outLenPtr (fst sl))
         in (res, s', snd sl @ [Codec ty res])))"

text \<open>
  Lines 72 to 77, the \<open>try\<close> block without its messages: the call, the read of the length
  cell, the copy out when pointer and length are both non-zero. The value is the bytes of
  the \<open>chunk\<close> message when there is one.
\<close>

definition transform_try ::
  "platform \<Rightarrow> 'g exports \<Rightarrow> msg_type \<Rightarrow> i32 \<Rightarrow> nat \<Rightarrow> i32 \<Rightarrow> 'g st \<Rightarrow>
   (string + bytes option) \<times> 'g st" where
  "transform_try pl ex ty inPtr n outLenPtr sl =
     and_then (call_codec pl ex ty inPtr n outLenPtr sl) (\<lambda>outPtr sl4.
       case read_u32 pl (fst sl4) outLenPtr of
         Inl e \<Rightarrow> (Inl e, sl4)
       | Inr outLen \<Rightarrow>
           if outPtr \<noteq> 0 \<and> outLen \<noteq> 0
           then (case read_bytes pl (fst sl4) outPtr outLen of
                   Inl e \<Rightarrow> (Inl e, sl4)
                 | Inr result \<Rightarrow> (Inr (Some result), sl4))
           else (Inr None, sl4))"

text \<open>
  Lines 82 and 83, the \<open>finally\<close> block: the two frees. The value is the message of a free
  that threw; the second free is not reached when the first throws.
\<close>

definition transform_finally ::
  "'g exports \<Rightarrow> i32 \<Rightarrow> nat \<Rightarrow> i32 \<Rightarrow> 'g st \<Rightarrow> string option \<times> 'g st" where
  "transform_finally ex inPtr n outLenPtr sl =
     (case call_free ex inPtr n sl of
        (Inl e, sl5) \<Rightarrow> (Some e, sl5)
      | (Inr u, sl5) \<Rightarrow>
          (case call_free ex outLenPtr 4 sl5 of
             (Inl e, sl6) \<Rightarrow> (Some e, sl6)
           | (Inr u', sl6) \<Rightarrow> (None, sl6)))"

text \<open>
  Lines 61 to 84 without the messages. The first allocation, its zero check, the copy in
  and the second allocation with its zero check come before the \<open>try\<close>: what they throw
  leaves the function at once, past the \<open>finally\<close> block. The result is the outcome of the
  \<open>try\<close> block (or of the exit before it) and what the \<open>finally\<close> block threw, if it ran and
  threw.
\<close>

definition abi_transform ::
  "platform \<Rightarrow> 'g exports \<Rightarrow> msg_type \<Rightarrow> bytes \<Rightarrow> 'g st \<Rightarrow>
   ((string + bytes option) \<times> string option) \<times> 'g st" where
  "abi_transform pl ex ty chunk sl =
     (case call_alloc ex (length chunk) sl of
        (Inl e, sl1) \<Rightarrow> ((Inl e, None), sl1)
      | (Inr inPtr, sl1) \<Rightarrow>
          if inPtr = 0 then ((Inl ''sb_alloc failed'', None), sl1)
          else
            (case write_bytes pl chunk inPtr (fst sl1) of
               Inl e \<Rightarrow> ((Inl e, None), sl1)
             | Inr s2 \<Rightarrow>
                 (case call_alloc ex 4 (s2, snd sl1) of
                    (Inl e, sl3) \<Rightarrow> ((Inl e, None), sl3)
                  | (Inr outLenPtr, sl3) \<Rightarrow>
                      if outLenPtr = 0
                      then (case call_free ex inPtr (length chunk) sl3 of
                              (Inl e, sl4) \<Rightarrow> ((Inl e, None), sl4)
                            | (Inr u, sl4) \<Rightarrow>
                                ((Inl ''sb_alloc for outLenPtr failed'', None), sl4))
                      else
                        (let (body, sl4) =
                               transform_try pl ex ty inPtr (length chunk) outLenPtr sl3;
                             (thrown, sl6) =
                               transform_finally ex inPtr (length chunk) outLenPtr sl4
                         in ((body, thrown), sl6)))))"

text \<open>
  Lines 74 to 80 and the outer \<open>catch\<close>: the messages posted for one request, given the
  outcome of the call.
\<close>

definition emit :: "nat \<Rightarrow> bool \<Rightarrow> string + bytes option \<Rightarrow> message list" where
  "emit rid isLast outcome =
     (case outcome of
        Inl e \<Rightarrow> [(rid, ErrorMsg e)]
      | Inr out \<Rightarrow>
          (case out of Some result \<Rightarrow> [(rid, ChunkMsg result)] | None \<Rightarrow> [])
          @ (if isLast then [(rid, ResultMsg)] else []))"

text \<open>
  The same when the \<open>finally\<close> block may have thrown: its exception replaces one of the
  \<open>try\<close> block, and comes after the messages the \<open>try\<close> block had posted.
\<close>

definition transform_messages ::
  "nat \<Rightarrow> bool \<Rightarrow> (string + bytes option) \<times> string option \<Rightarrow> message list" where
  "transform_messages rid isLast outcome =
     (case snd outcome of
        None \<Rightarrow> emit rid isLast (fst outcome)
      | Some e \<Rightarrow>
          (case fst outcome of Inl e' \<Rightarrow> [] | Inr out \<Rightarrow> emit rid isLast (Inr out))
          @ [(rid, ErrorMsg e)])"

text \<open>The \<open>encode\<close>/\<open>decode\<close> branch.\<close>

definition worker_transform ::
  "platform \<Rightarrow> nat \<Rightarrow> msg_type \<Rightarrow> bytes \<Rightarrow> bool \<Rightarrow> 'g worker \<Rightarrow> message list \<times> 'g worker" where
  "worker_transform pl rid ty chunk isLast w =
     (case wasmExports w of
        None \<Rightarrow> ([(rid, ErrorMsg ''Engine not loaded'')], w)
      | Some (ex, s0) \<Rightarrow>
          (let (outcome, s, l) = abi_transform pl ex ty chunk (s0, abi_log w)
           in (transform_messages rid isLast outcome,
               w\<lparr>wasmExports := Some (ex, s), abi_log := l\<rparr>)))"

text \<open>
  \<open>self.onmessage\<close>. The host sends \<open>load\<close> with \<open>{ wasmUrl }\<close> and \<open>encode\<close>/\<open>decode\<close> with
  \<open>{ chunk, isLast }\<close>. For the other shapes the destructuring gives \<open>undefined\<close>: a \<open>load\<close>
  fetches the URL \<open>undefined\<close>; an \<open>encode\<close>/\<open>decode\<close> passes the check of \<open>wasmExports\<close> and
  then throws on \<open>chunk.byteLength\<close>.
\<close>

definition onmessage ::
  "platform \<Rightarrow> (string \<Rightarrow> string + 'g exports \<times> 'g wasm_instance) \<Rightarrow> request \<Rightarrow>
   'g worker \<Rightarrow> message list \<times> 'g worker" where
  "onmessage pl fetch req w =
     (case (req_type req, req_payload req) of
        (Load, LoadPayload wasmUrl) \<Rightarrow>
          (let (resp, w') = worker_load pl (fetch wasmUrl) w in ([(req_id req, resp)], w'))
      | (Load, ChunkPayload chunk isLast totalChunks) \<Rightarrow>
          (let (resp, w') = worker_load pl (fetch ''undefined'') w in ([(req_id req, resp)], w'))
      | (Encode, ChunkPayload chunk isLast totalChunks) \<Rightarrow>
          worker_transform pl (req_id req) Encode chunk isLast w
      | (Decode, ChunkPayload chunk isLast totalChunks) \<Rightarrow>
          worker_transform pl (req_id req) Decode chunk isLast w
      | (ty, LoadPayload wasmUrl) \<Rightarrow>
          (case wasmExports w of
             None \<Rightarrow> ([(req_id req, ErrorMsg ''Engine not loaded'')], w)
           | Some exs \<Rightarrow>
               ([(req_id req, ErrorMsg (fault_message pl (NoProperty ''byteLength'')))], w)))"

section \<open>The host: script.js\<close>

subsection \<open>State\<close>

text \<open>
  An entry of \<open>S.engines\<close>: the descriptor's fields, \<open>isPreset\<close>, and the worker, named by
  the order in which the host created it.
\<close>

record engine = engine_info +
  isPreset :: bool
  worker :: nat

text \<open>
  The lines the modelled functions print (the markup left out), and what the host does to
  the outside, in order: \<open>print\<close>, \<open>new Worker\<close>, \<open>worker.postMessage\<close>,
  \<open>worker.terminate\<close>, and \<open>S.engines.set\<close>.
\<close>

datatype line =
    Overwritten string   \<comment> \<open>class \<open>warn\<close>: \<open>Overwritten: ${engine.id}\<close>\<close>
  | Processing nat nat   \<comment> \<open>class \<open>info\<close>: \<open>Processing ... (${file.size} bytes) in ${totalChunks} chunks...\<close>\<close>

datatype effect =
    Print line
  | NewWorker nat
  | Post nat request
  | Terminate nat
  | SetEngine string nat

text \<open>
  \<open>S\<close>, as far as the engine functions use it: \<open>S.engines\<close> is a JavaScript \<open>Map\<close>, kept
  as an association list in insertion order; \<open>S.nextRequestId\<close> counts from 0 and stays
  far below \<open>2^53\<close>, where JavaScript numbers are exact, so it is a \<open>nat\<close>.
\<close>

record host =
  engines :: "(string \<times> engine) list"
  nextRequestId :: nat
  workers :: nat
  trace :: "effect list"

definition S_init :: host where
  "S_init = \<lparr>engines = [], nextRequestId = 0, workers = 0, trace = []\<rparr>"

subsection \<open>Loading an engine\<close>

text \<open>
  The synchronous part of \<open>createWorkerForEngine\<close>: the new worker, the request id drawn
  with \<open>S.nextRequestId++\<close>, the \<open>load\<close> request posted.
\<close>

definition createWorkerForEngine :: "string \<Rightarrow> host \<Rightarrow> (nat \<times> nat) \<times> host" where
  "createWorkerForEngine wasmUrl S =
     (let worker = workers S;
          requestId = nextRequestId S
      in ((worker, requestId),
          S\<lparr>workers := worker + 1, nextRequestId := requestId + 1,
            trace := trace S @ [NewWorker worker,
              Post worker \<lparr>req_id = requestId, req_type = Load,
                           req_payload = LoadPayload wasmUrl\<rparr>]\<rparr>))"

text \<open>
  Its message handler, run over the messages the worker sends: the first message that
  carries the request's id settles the promise (\<open>Inr\<close> resolves, \<open>Inl\<close> rejects) when it is
  \<open>loaded\<close> or \<open>error\<close>, and removes the listener in any case. \<open>None\<close>: never settled.
\<close>

fun load_await :: "nat \<Rightarrow> message list \<Rightarrow> (string + engine_info) option" where
  "load_await requestId [] = None"
| "load_await requestId (e # es) =
     (if fst e = requestId
      then (case snd e of
              Loaded info \<Rightarrow> Some (Inr info)
            | ErrorMsg err \<Rightarrow> Some (Inl err)
            | _ \<Rightarrow> None)
      else load_await requestId es)"

datatype load_result = Ok engine | Fail string

text \<open>
  \<open>loadWasmEngine\<close> from the point where the awaited promise has settled: lines 194 to 212.
\<close>

definition loadWasmEngine_resume ::
  "bool \<Rightarrow> nat \<Rightarrow> string + engine_info \<Rightarrow> host \<Rightarrow> load_result \<times> host" where
  "loadWasmEngine_resume isPreset' worker' settled S =
     (case settled of
        Inl err \<Rightarrow> (Fail err, S)
      | Inr info \<Rightarrow>
          (let engine = \<lparr>eid = eid info, ename = ename info, desc = desc info,
                          binarySafe = binarySafe info, selfInverse = selfInverse info,
                          reversible = reversible info, isPreset = isPreset', worker = worker'\<rparr>;
               S1 = (case map_of (engines S) (eid engine) of
                       Some old \<Rightarrow>
                         S\<lparr>trace := trace S @ [Print (Overwritten (eid engine)),
                                                Terminate (worker old)]\<rparr>
                     | None \<Rightarrow> S)
           in (Ok engine,
               S1\<lparr>engines := AList.update (eid engine) engine (engines S1),
                  trace := trace S1 @ [SetEngine (eid engine) worker']\<rparr>)))"

text \<open>
  The whole of \<open>loadWasmEngine\<close>, with the new worker's answer to the \<open>load\<close> request
  computed by \<open>onmessage\<close>. The result is \<open>None\<close> when no message settles the promise.
\<close>

definition loadWasmEngine ::
  "platform \<Rightarrow> (string \<Rightarrow> string + 'g exports \<times> 'g wasm_instance) \<Rightarrow>
   string \<Rightarrow> bool \<Rightarrow> host \<Rightarrow> load_result option \<times> host \<times> 'g worker" where
  "loadWasmEngine pl fetch url isPreset' S =
     (let ((worker', requestId), S1) = createWorkerForEngine url S;
          (msgs, w) = onmessage pl fetch
                        \<lparr>req_id = requestId, req_type = Load, req_payload = LoadPayload url\<rparr>
                        new_worker
      in case load_await requestId msgs of
           None \<Rightarrow> (None, S1, w)
         | Some settled \<Rightarrow>
             (let (r, S2) = loadWasmEngine_resume isPreset' worker' settled S1
              in (Some r, S2, w)))"

subsection \<open>A single request: callEngine\<close>

text \<open>A promise settles once: a later \<open>resolve\<close> or \<open>reject\<close> does nothing.\<close>

definition settle :: "'a \<Rightarrow> 'a option \<Rightarrow> 'a option" where
  "settle v p = (case p of None \<Rightarrow> Some v | Some x \<Rightarrow> Some x)"

text \<open>
  What one call of \<open>callEngine\<close> keeps: its request id, the \<open>chunks\<close> received, whether its
  listener is still attached, and the promise (\<open>Inr\<close> the resolved bytes, \<open>Inl\<close> the
  rejection).
\<close>

record call =
  c_requestId :: nat
  chunks :: "bytes list"
  c_listening :: bool
  c_settled :: "(string + bytes) option"

text \<open>
  \<open>callEngine\<close> up to the \<open>postMessage\<close>: an unregistered id rejects at once, before a
  request id is drawn; otherwise the request posted and the call's state.
\<close>

definition callEngine ::
  "string \<Rightarrow> msg_type \<Rightarrow> bytes \<Rightarrow> host \<Rightarrow> (string + request \<times> call) \<times> host" where
  "callEngine engineId ty input S =
     (case map_of (engines S) engineId of
        None \<Rightarrow> (Inl ''Engine not found'', S)
      | Some engine \<Rightarrow>
          (let requestId = nextRequestId S;
               req = \<lparr>req_id = requestId, req_type = ty,
                      req_payload = ChunkPayload input True None\<rparr>
           in (Inr (req, \<lparr>c_requestId = requestId, chunks = [], c_listening = True,
                          c_settled = None\<rparr>),
               S\<lparr>nextRequestId := requestId + 1,
                 trace := trace S @ [Post (worker engine) req]\<rparr>)))"


subsection \<open>A chunked operation: processFile\<close>

definition CHUNK_SIZE :: nat where
  "CHUNK_SIZE = 64 * 1024"

text \<open>
  What one call of \<open>processFile\<close> keeps: the file (its bytes), the mode, the engine's
  worker, \<open>totalChunks\<close>, \<open>offset\<close>, \<open>chunkIndex\<close>, \<open>resultChunks\<close>, the request ids whose
  listeners are attached, the promise, and whether the \<open>FileReader\<close> is reading a slice.
\<close>

record pf =
  pf_file :: bytes
  pf_mode :: msg_type
  pf_worker :: nat
  totalChunks :: nat
  offset :: nat
  chunkIndex :: nat
  resultChunks :: "bytes list"
  listeners :: "nat list"
  settled :: "(string + bytes) option"
  reading :: bool

text \<open>
  \<open>processFile\<close> up to the first \<open>processNextChunk()\<close>. The chunk size \<open>cs\<close> is the
  function's constant \<open>CHUNK_SIZE\<close>, taken as a parameter; \<open>Math.ceil(size / cs)\<close> is written
  for \<open>cs > 0\<close>. \<open>processNextChunk\<close> starts a read when \<open>offset < file.size\<close>.
\<close>

definition processFile ::
  "nat \<Rightarrow> bytes \<Rightarrow> string \<Rightarrow> msg_type \<Rightarrow> host \<Rightarrow> (string + pf) \<times> host" where
  "processFile cs file' engineId mode' S =
     (let totalChunks' = (length file' + cs - 1) div cs;
          S1 = S\<lparr>trace := trace S @ [Print (Processing (length file') totalChunks')]\<rparr>
      in case map_of (engines S1) engineId of
           None \<Rightarrow> (Inl ''Engine not found'', S1)
         | Some engine \<Rightarrow>
             (Inr \<lparr>pf_file = file', pf_mode = mode', pf_worker = worker engine,
                   totalChunks = totalChunks', offset = 0, chunkIndex = 0, resultChunks = [],
                   listeners = [], settled = None, reading = (0 < length file')\<rparr>,
              S1))"

text \<open>
  \<open>reader.onload\<close>: the slice read is \<open>file.slice(offset, offset + cs)\<close>; a request id is
  drawn, a listener attached, the chunk posted; then \<open>offset\<close> and \<open>chunkIndex\<close> advance and
  \<open>processNextChunk()\<close> starts the next read if any of the file is left.
\<close>

definition reader_onload :: "nat \<Rightarrow> pf \<Rightarrow> host \<Rightarrow> request \<times> pf \<times> host" where
  "reader_onload cs p S =
     (let chunkData = take cs (drop (offset p) (pf_file p));
          requestId = nextRequestId S;
          req = \<lparr>req_id = requestId, req_type = pf_mode p,
                 req_payload = ChunkPayload chunkData (offset p + cs \<ge> length (pf_file p))
                                 (Some (totalChunks p))\<rparr>
      in (req,
          p\<lparr>listeners := listeners p @ [requestId], offset := offset p + cs,
            chunkIndex := chunkIndex p + 1, reading := (offset p + cs < length (pf_file p))\<rparr>,
          S\<lparr>nextRequestId := requestId + 1, trace := trace S @ [Post (pf_worker p) req]\<rparr>))"

text \<open>\<open>reader.onerror\<close>: reject; no further read is started.\<close>

definition reader_onerror :: "pf \<Rightarrow> pf" where
  "reader_onerror p = p\<lparr>settled := settle (Inl ''File read error'') (settled p), reading := False\<rparr>"

text \<open>The listener attached for the request \<open>requestId\<close>.\<close>

definition pf_handler :: "nat \<Rightarrow> message \<Rightarrow> pf \<Rightarrow> pf" where
  "pf_handler requestId msg p =
     (if fst msg = requestId
      then (case snd msg of
              ChunkMsg payload \<Rightarrow> p\<lparr>resultChunks := resultChunks p @ [payload]\<rparr>
            | ResultMsg \<Rightarrow>
                p\<lparr>settled := settle (Inr (concat (resultChunks p))) (settled p),
                  listeners := remove1 requestId (listeners p)\<rparr>
            | ErrorMsg err \<Rightarrow>
                p\<lparr>settled := settle (Inl err) (settled p),
                  listeners := remove1 requestId (listeners p)\<rparr>
            | Loaded info \<Rightarrow> p)
      else p)"

text \<open>A message from the worker runs every listener attached when it arrives.\<close>

definition pf_onmessage :: "message \<Rightarrow> pf \<Rightarrow> pf" where
  "pf_onmessage msg p = fold (\<lambda>requestId. pf_handler requestId msg) (listeners p) p"

subsection \<open>Host and context together\<close>

text \<open>
  One chunked operation with its context. The context handles the requests in the order
  they were posted, one at a time; \<open>respond\<close> gives its messages for a request and its next
  state (for the worker above, \<open>onmessage\<close>). Its messages reach the host in the order
  sent, each at some later time: \<open>inflight\<close> holds those sent and not yet delivered.
  \<open>history\<close> records what the host sent and received, in order.
\<close>

datatype obs = Sent request | Received message

record 'w system =
  hostS :: host
  op :: pf
  ctx :: 'w
  inflight :: "message list"
  history :: "obs list"

text \<open>
  What can happen next: the reader finishes a slice, the reader fails, the next message
  of the context is delivered. An event that cannot happen in a state leaves it as it is.
\<close>

datatype event = ReaderLoad | ReaderError | Deliver

definition step ::
  "nat \<Rightarrow> (request \<Rightarrow> 'w \<Rightarrow> message list \<times> 'w) \<Rightarrow> event \<Rightarrow> 'w system \<Rightarrow> 'w system" where
  "step cs respond ev sys =
     (case ev of
        ReaderLoad \<Rightarrow>
          (if reading (op sys)
           then (let (req, p', S') = reader_onload cs (op sys) (hostS sys);
                     (msgs, w') = respond req (ctx sys)
                 in \<lparr>hostS = S', op = p', ctx = w', inflight = inflight sys @ msgs,
                     history = history sys @ [Sent req]\<rparr>)
           else sys)
      | ReaderError \<Rightarrow>
          (if reading (op sys) then sys\<lparr>op := reader_onerror (op sys)\<rparr> else sys)
      | Deliver \<Rightarrow>
          (case inflight sys of
             [] \<Rightarrow> sys
           | m # ms \<Rightarrow>
               sys\<lparr>op := pf_onmessage m (op sys), inflight := ms,
                   history := history sys @ [Received m]\<rparr>))"

definition run ::
  "nat \<Rightarrow> (request \<Rightarrow> 'w \<Rightarrow> message list \<times> 'w) \<Rightarrow> event list \<Rightarrow> 'w system \<Rightarrow> 'w system" where
  "run cs respond evs sys = fold (step cs respond) evs sys"




text \<open>
  The messages the host posted, and their request ids, in order; the operations of the
  host that touch the request counter or the registry.
\<close>

definition posts :: "host \<Rightarrow> (nat \<times> request) list" where
  "posts S = concat (map (\<lambda>e. case e of Post w r \<Rightarrow> [(w, r)] | _ \<Rightarrow> []) (trace S))"

definition posted_ids :: "host \<Rightarrow> nat list" where
  "posted_ids S = map (\<lambda>wr. req_id (snd wr)) (posts S)"

datatype host_op =
    OpCreateWorker string
  | OpResume bool nat "string + engine_info"
  | OpCall string msg_type bytes
  | OpProcessFile nat bytes string msg_type
  | OpReaderLoad nat pf

fun perform :: "host_op \<Rightarrow> host \<Rightarrow> host" where
  "perform (OpCreateWorker url) S = snd (createWorkerForEngine url S)"
| "perform (OpResume isPreset' worker' r) S = snd (loadWasmEngine_resume isPreset' worker' r S)"
| "perform (OpCall engineId ty input) S = snd (callEngine engineId ty input S)"
| "perform (OpProcessFile cs file' engineId mode') S = snd (processFile cs file' engineId mode' S)"
| "perform (OpReaderLoad cs p) S = snd (snd (reader_onload cs p S))"

subsection \<open>Describing a chunked operation\<close>

text \<open>
  The requests in a history; the request for chunk \<open>k\<close> of a file when the counter stood at
  \<open>base\<close> at the start, and the list of all of them.
\<close>

definition sent :: "obs list \<Rightarrow> request list" where
  "sent h = concat (map (\<lambda>x. case x of Sent r \<Rightarrow> [r] | Received m \<Rightarrow> []) h)"

definition chunk_request :: "nat \<Rightarrow> bytes \<Rightarrow> msg_type \<Rightarrow> nat \<Rightarrow> nat \<Rightarrow> request" where
  "chunk_request cs f m base k =
     \<lparr>req_id = base + k, req_type = m,
      req_payload = ChunkPayload (take cs (drop (k * cs) f)) (length f \<le> k * cs + cs)
                      (Some ((length f + cs - 1) div cs))\<rparr>"

definition all_requests :: "nat \<Rightarrow> bytes \<Rightarrow> msg_type \<Rightarrow> nat \<Rightarrow> request list" where
  "all_requests cs f m base = map (chunk_request cs f m base) [0..<(length f + cs - 1) div cs]"

text \<open>The state of the sender after \<open>k\<close> chunks, and how an event moves \<open>k\<close>.\<close>

definition sending :: "nat \<Rightarrow> bytes \<Rightarrow> msg_type \<Rightarrow> nat \<Rightarrow> nat \<Rightarrow> 'w system \<Rightarrow> bool" where
  "sending cs f m base k sys \<longleftrightarrow>
     pf_file (op sys) = f \<and> pf_mode (op sys) = m
     \<and> totalChunks (op sys) = (length f + cs - 1) div cs
     \<and> offset (op sys) = k * cs
     \<and> nextRequestId (hostS sys) = base + k
     \<and> reading (op sys) = (k * cs < length f)
     \<and> sent (history sys) = map (chunk_request cs f m base) [0..<k]"

fun next_k :: "nat \<Rightarrow> nat \<Rightarrow> event \<Rightarrow> nat \<Rightarrow> nat" where
  "next_k cs n ReaderLoad k = (if k * cs < n then k + 1 else k)"
| "next_k cs n ev k = k"

text \<open>
  The messages of the \<open>encode\<close>/\<open>decode\<close> branch for a chunk on which the plugin's call yields
  the bytes \<open>T chunk\<close> (no \<open>chunk\<close> message when they are empty), and a context that answers
  every chunk so, with \<open>T\<close> the identity.
\<close>

definition reply :: "(bytes \<Rightarrow> bytes) \<Rightarrow> nat \<Rightarrow> bool \<Rightarrow> bytes \<Rightarrow> message list" where
  "reply T rid isLast chunk =
     emit rid isLast (Inr (if T chunk = [] then None else Some (T chunk)))"

definition echo_respond :: "request \<Rightarrow> unit \<Rightarrow> message list \<times> unit" where
  "echo_respond req w =
     (case req_payload req of
        ChunkPayload chunk isLast tc \<Rightarrow> (reply (\<lambda>c. c) (req_id req) isLast chunk, w)
      | LoadPayload url \<Rightarrow> ([(req_id req, ErrorMsg ''not a module'')], w))"



text \<open>
  The sentence of the specification about waiting, on a history: the host sends a chunk
  only when no earlier chunk is still waiting for its terminal message (\<open>result\<close> or
  \<open>error\<close> with that chunk's request id).
\<close>

definition terminal :: "response \<Rightarrow> bool" where
  "terminal b = (case b of ResultMsg \<Rightarrow> True | ErrorMsg e \<Rightarrow> True | _ \<Rightarrow> False)"

fun awaited :: "nat option \<Rightarrow> obs list \<Rightarrow> bool" where
  "awaited pending [] = True"
| "awaited pending (Sent req # h) = (pending = None \<and> awaited (Some (req_id req)) h)"
| "awaited pending (Received m # h) =
     awaited (if pending = Some (fst m) \<and> terminal (snd m) then None else pending) h"

definition waits_for_response :: "obs list \<Rightarrow> bool" where
  "waits_for_response h = awaited None h"

text \<open>
  A chunked operation at its start, for an engine that is registered, and a file of two
  chunks: 64 KiB and one byte more, all zero.
\<close>

definition begin_chunked ::
  "nat \<Rightarrow> bytes \<Rightarrow> string \<Rightarrow> msg_type \<Rightarrow> host \<Rightarrow> 'w \<Rightarrow> 'w system" where
  "begin_chunked cs file' engineId mode' S w =
     \<lparr>hostS = snd (processFile cs file' engineId mode' S),
      op = projr (fst (processFile cs file' engineId mode' S)),
      ctx = w, inflight = [], history = []\<rparr>"

definition two_chunk_file :: bytes where
  "two_chunk_file = replicate (CHUNK_SIZE + 1) 0"

section \<open>Sample plugins\<close>

text \<open>
  A small module to run the model on: a bump allocator over a 64-byte memory that
  returns 0 when the request does not fit, an in-place copy as codec, the id \<open>copy\<close> stored
  at address 4. The exported names and the value of \<open>sb_is_reversible\<close> are parameters.
  \<open>ascii\<close> stands for \<open>TextDecoder\<close> on ASCII bytes, \<open>sample_fault\<close> for the platform's
  message texts.
\<close>

definition le32 :: "nat \<Rightarrow> bytes" where
  "le32 n = [of_nat n, of_nat (n div 256), of_nat (n div 65536), of_nat (n div 16777216)]"

definition ascii :: "bytes \<Rightarrow> string" where
  "ascii bs = map (\<lambda>b. char_of (unat b)) bs"

fun sample_fault :: "fault \<Rightarrow> string" where
  "sample_fault (BadView elem off n len) = ''Invalid typed array view''"
| "sample_fault (BadSet off n len) = ''offset is out of bounds''"
| "sample_fault (NotAFunction f) = f @ '' is not a function''"
| "sample_fault (NoProperty p) = ''Cannot read properties of undefined''"

definition sample_platform :: platform where
  "sample_platform = \<lparr>TextDecoder = ascii, fault_message = sample_fault\<rparr>"

text \<open>The plugin's own store into its memory.\<close>

definition poke :: "bytes \<Rightarrow> i32 \<Rightarrow> 'g wasm_instance \<Rightarrow> 'g wasm_instance" where
  "poke bs p s =
     s\<lparr>memory := (\<lambda>a. if unat p \<le> a \<and> a < unat p + length bs then bs ! (a - unat p)
                      else memory s a)\<rparr>"

definition bump_alloc :: "nat \<Rightarrow> nat wasm_instance \<Rightarrow> (string + i32) \<times> nat wasm_instance" where
  "bump_alloc n s =
     (if 64 < globals s + n then (Inr 0, s)
      else (Inr (of_nat (globals s)), s\<lparr>globals := globals s + 4 * ((n + 3) div 4)\<rparr>))"

definition put_len :: "nat \<Rightarrow> i32 \<Rightarrow> 'g wasm_instance \<Rightarrow> 'g wasm_instance" where
  "put_len n p s = poke (le32 n) p s"

definition copy_plugin :: "string list \<Rightarrow> i32 \<Rightarrow> nat exports" where
  "copy_plugin names rflag =
     \<lparr>present = names,
      sb_alloc = bump_alloc,
      sb_free = (\<lambda>p n s. (Inr (), s)),
      sb_get_id = (\<lambda>lenPtr s. (Inr 4, put_len 4 lenPtr s)),
      sb_get_name = (\<lambda>lenPtr s. (Inr 4, put_len 4 lenPtr s)),
      sb_get_desc = (\<lambda>lenPtr s. (Inr 0, put_len 0 lenPtr s)),
      sb_is_binary_safe = (\<lambda>s. (Inr 1, s)),
      sb_is_self_inverse = (\<lambda>s. (Inr 2, s)),
      sb_is_reversible = (\<lambda>s. (Inr rflag, s)),
      sb_encode = (\<lambda>p n lenPtr s. (Inr p, put_len n lenPtr s)),
      sb_decode = (\<lambda>p n lenPtr s. (Inr p, put_len n lenPtr s))\<rparr>"

definition copy_instance :: "nat wasm_instance" where
  "copy_instance =
     \<lparr>memory = (\<lambda>a. if 4 \<le> a \<and> a < 8 then [99, 111, 112, 121] ! (a - 4) else 0),
      mem_size = 64, globals = 16\<rparr>"

text \<open>
  A variant whose \<open>sb_encode\<close> produces nothing (pointer 0, length 0); the probe string
  \<open>StarBrickVII_VALIDATION_123\<close> of \<open>validateEngine\<close> as bytes; the descriptor the sample
  plugin loads to; a host state with that engine registered under worker 0.
\<close>

definition mute_plugin :: "nat exports" where
  "mute_plugin = (copy_plugin required 0)\<lparr>sb_encode := (\<lambda>p n lenPtr s. (Inr 0, put_len 0 lenPtr s))\<rparr>"

definition testStr :: bytes where
  "testStr = [83, 116, 97, 114, 66, 114, 105, 99, 107, 86, 73, 73, 95, 86, 65, 76, 73, 68, 65,
              84, 73, 79, 78, 95, 49, 50, 51]"

definition copy_info :: engine_info where
  "copy_info = \<lparr>eid = ''copy'', ename = ''copy'', desc = [], binarySafe = True,
                 selfInverse = False, reversible = False\<rparr>"

definition S_one :: host where
  "S_one = \<lparr>engines = [(''copy'', engine_info.extend copy_info \<lparr>isPreset = True, worker = 0\<rparr>)],
            nextRequestId = 1, workers = 1, trace = []\<rparr>"

text \<open>The host after it has loaded and registered that engine from the initial state.\<close>

definition S_loaded :: host where
  "S_loaded = perform (OpResume True 0 (Inr copy_info))
                (perform (OpCreateWorker ''engines/copy.wasm'') S_init)"

text \<open>
  A module whose allocator keeps a ledger of the blocks it has handed out and not got
  back: \<open>sb_alloc\<close> takes the next \<open>n\<close> bytes and enters the block, \<open>sb_free\<close> strikes
  it. When \<open>strict\<close>, an allocation that does not fit in the memory traps; otherwise the
  pointer is returned all the same. The codec copies in place.
\<close>

definition ledger_alloc ::
  "bool \<Rightarrow> nat \<Rightarrow> (nat \<times> (i32 \<times> nat) list) wasm_instance \<Rightarrow>
   (string + i32) \<times> (nat \<times> (i32 \<times> nat) list) wasm_instance" where
  "ledger_alloc strict n s =
     (let next = fst (globals s); live = snd (globals s) in
      if strict \<and> mem_size s < next + n then (Inl ''unreachable'', s)
      else (Inr (of_nat next), s\<lparr>globals := (next + n, live @ [(of_nat next, n)])\<rparr>))"

definition ledger_free ::
  "i32 \<Rightarrow> nat \<Rightarrow> (nat \<times> (i32 \<times> nat) list) wasm_instance \<Rightarrow>
   (string + unit) \<times> (nat \<times> (i32 \<times> nat) list) wasm_instance" where
  "ledger_free p n s =
     (Inr (), s\<lparr>globals := (fst (globals s), remove1 (p, n) (snd (globals s)))\<rparr>)"

definition ledger_plugin :: "bool \<Rightarrow> (nat \<times> (i32 \<times> nat) list) exports" where
  "ledger_plugin strict =
     \<lparr>present = required @ [''sb_decode''],
      sb_alloc = ledger_alloc strict,
      sb_free = ledger_free,
      sb_get_id = (\<lambda>lenPtr s. (Inr 0, put_len 0 lenPtr s)),
      sb_get_name = (\<lambda>lenPtr s. (Inr 0, put_len 0 lenPtr s)),
      sb_get_desc = (\<lambda>lenPtr s. (Inr 0, put_len 0 lenPtr s)),
      sb_is_binary_safe = (\<lambda>s. (Inr 1, s)),
      sb_is_self_inverse = (\<lambda>s. (Inr 0, s)),
      sb_is_reversible = (\<lambda>s. (Inr 1, s)),
      sb_encode = (\<lambda>p n lenPtr s. (Inr p, put_len n lenPtr s)),
      sb_decode = (\<lambda>p n lenPtr s. (Inr p, put_len n lenPtr s))\<rparr>"

text \<open>Its instance: 64 bytes of memory, nothing handed out, the next block at \<open>next\<close>.\<close>

definition ledger_instance :: "nat \<Rightarrow> (nat \<times> (i32 \<times> nat) list) wasm_instance" where
  "ledger_instance next = \<lparr>memory = (\<lambda>a. 0), mem_size = 64, globals = (next, [])\<rparr>"

text \<open>The blocks handed out and not yet freed.\<close>

definition live_blocks :: "(nat \<times> (i32 \<times> nat) list) wasm_instance \<Rightarrow> (i32 \<times> nat) list" where
  "live_blocks s = snd (globals s)"

text \<open>The keys of a \<open>Map\<close> are unique.\<close>

definition registry_ok :: "host \<Rightarrow> bool" where
  "registry_ok S \<longleftrightarrow> distinct (map fst (engines S))"

section \<open>Properties of the worker\<close>

lemmas sample_defs =
  required_def copy_plugin_def get_string_def bump_alloc_def copy_instance_def put_len_def
  poke_def readStr_def read_u32_def read_bytes_def write_bytes_def view_ok_def le32_def
  ascii_def sample_platform_def new_worker_def read_metadata_def read_info_def worker_load_def
  and_then_def call_alloc_def call_free_def call_getter_def call_flag_def
  Let_def upt_conv_Cons char_of_def bit_0

lemma and_then_Inr:
  "and_then r f = (Inr b, sl') \<longleftrightarrow> (\<exists>a sl. r = (Inr a, sl) \<and> f a sl = (Inr b, sl'))"
  by (cases r; cases "fst r") (auto simp: and_then_def)

lemma call_flag_Inr:
  assumes "call_flag fnName flag sl = (Inr v, sl')"
  shows "fst (flag (fst sl)) = Inr v" and "snd sl' = snd sl @ [Flag fnName v]"
  using assms by (auto simp: call_flag_def split: prod.splits sum.splits)

lemma worker_load_LoadedE:
  assumes "worker_load pl (Inr (ex, s0)) w = (Loaded info, w')"
  obtains names sl3 b sl4 s sl5 r sl6 where
    "find (\<lambda>r. r \<notin> set (present ex)) required = None"
    "read_metadata pl ex (s0, abi_log w) = (Inr names, sl3)"
    "call_flag ''sb_is_binary_safe'' (sb_is_binary_safe ex) sl3 = (Inr b, sl4)"
    "call_flag ''sb_is_self_inverse'' (sb_is_self_inverse ex) sl4 = (Inr s, sl5)"
    "call_flag ''sb_is_reversible'' (sb_is_reversible ex) sl5 = (Inr r, sl6)"
    "info = \<lparr>eid = fst names, ename = fst (snd names), desc = snd (snd names),
             binarySafe = (b = 1), selfInverse = (s = 1), reversible = (r = 1)\<rparr>"
    "w' = \<lparr>wasmExports = Some (ex, fst sl6), engineInfo = Some info, abi_log = snd sl6\<rparr>"
proof -
  from assms have n: "find (\<lambda>r. r \<notin> set (present ex)) required = None"
    unfolding worker_load_def by (auto split: option.splits)
  obtain res s l where ri: "read_info pl ex (s0, abi_log w) = (res, s, l)"
    by (metis prod_cases3)
  with assms n have res: "res = Inr info"
    and w': "w' = \<lparr>wasmExports = Some (ex, s), engineInfo = Some info, abi_log = l\<rparr>"
    unfolding worker_load_def by (auto split: sum.splits)
  from ri res have "read_info pl ex (s0, abi_log w) = (Inr info, (s, l))" by simp
  then obtain names sl3 b sl4 s' sl5 r sl6 where
    m: "read_metadata pl ex (s0, abi_log w) = (Inr names, sl3)"
    and f1: "call_flag ''sb_is_binary_safe'' (sb_is_binary_safe ex) sl3 = (Inr b, sl4)"
    and f2: "call_flag ''sb_is_self_inverse'' (sb_is_self_inverse ex) sl4 = (Inr s', sl5)"
    and f3: "call_flag ''sb_is_reversible'' (sb_is_reversible ex) sl5 = (Inr r, sl6)"
    and i: "info = \<lparr>eid = fst names, ename = fst (snd names), desc = snd (snd names),
             binarySafe = (b = 1), selfInverse = (s' = 1), reversible = (r = 1)\<rparr>"
    and e: "sl6 = (s, l)"
    unfolding read_info_def and_then_Inr by blast
  show thesis
    by (rule that [OF n m f1 f2 f3 i]) (simp add: w' e)
qed

lemma copy_plugin_loads:
  "worker_load sample_platform (Inr (copy_plugin required 0, copy_instance)) new_worker =
     (Loaded \<lparr>eid = ''copy'', ename = ''copy'', desc = [], binarySafe = True,
              selfInverse = False, reversible = False\<rparr>,
      snd (worker_load sample_platform (Inr (copy_plugin required 0, copy_instance)) new_worker))"
  by (simp add: prod_eq_iff) (simp add: sample_defs)

text \<open>
  C10. Each capability flag of the descriptor is true exactly when the plugin's export
  returned the i32 value 1 at load time: the three flag calls end the load's record of
  calls, and the flag is the comparison of the returned value with 1.
\<close>

theorem flag_true_iff_export_returns_one:
  assumes "worker_load pl (Inr (ex, s0)) w = (Loaded info, w')"
  shows "\<exists>pre b s r s3 s4 s5.
           abi_log w' = pre @ [Flag ''sb_is_binary_safe'' b, Flag ''sb_is_self_inverse'' s,
                               Flag ''sb_is_reversible'' r]
           \<and> fst (sb_is_binary_safe ex s3) = Inr b \<and> fst (sb_is_self_inverse ex s4) = Inr s
           \<and> fst (sb_is_reversible ex s5) = Inr r
           \<and> (binarySafe info \<longleftrightarrow> b = 1) \<and> (selfInverse info \<longleftrightarrow> s = 1)
           \<and> (reversible info \<longleftrightarrow> r = 1)"
proof -
  from assms obtain names sl3 b sl4 s sl5 r sl6 where
    f1: "call_flag ''sb_is_binary_safe'' (sb_is_binary_safe ex) sl3 = (Inr b, sl4)"
    and f2: "call_flag ''sb_is_self_inverse'' (sb_is_self_inverse ex) sl4 = (Inr s, sl5)"
    and f3: "call_flag ''sb_is_reversible'' (sb_is_reversible ex) sl5 = (Inr r, sl6)"
    and i: "info = \<lparr>eid = fst names, ename = fst (snd names), desc = snd (snd names),
             binarySafe = (b = 1), selfInverse = (s = 1), reversible = (r = 1)\<rparr>"
    and w: "w' = \<lparr>wasmExports = Some (ex, fst sl6), engineInfo = Some info, abi_log = snd sl6\<rparr>"
    by (rule worker_load_LoadedE)
  have "fst (sb_is_binary_safe ex (fst sl3)) = Inr b"
       "fst (sb_is_self_inverse ex (fst sl4)) = Inr s"
       "fst (sb_is_reversible ex (fst sl5)) = Inr r"
    using call_flag_Inr(1) [OF f1] call_flag_Inr(1) [OF f2] call_flag_Inr(1) [OF f3]
    by simp_all
  moreover have "abi_log w' = snd sl3 @ [Flag ''sb_is_binary_safe'' b,
                     Flag ''sb_is_self_inverse'' s, Flag ''sb_is_reversible'' r]"
    using w call_flag_Inr(2) [OF f1] call_flag_Inr(2) [OF f2] call_flag_Inr(2) [OF f3]
    by simp
  moreover have "(binarySafe info \<longleftrightarrow> b = 1)" "(selfInverse info \<longleftrightarrow> s = 1)"
     "(reversible info \<longleftrightarrow> r = 1)" using i by simp_all
  ultimately show ?thesis by blast
qed

theorem flag_true_iff_export_returns_one_witness:
  "\<exists>pre b s r s3 s4 s5.
     abi_log (snd (worker_load sample_platform (Inr (copy_plugin required 0, copy_instance))
                     new_worker))
       = pre @ [Flag ''sb_is_binary_safe'' b, Flag ''sb_is_self_inverse'' s,
                Flag ''sb_is_reversible'' r]
     \<and> fst (sb_is_binary_safe (copy_plugin required 0) s3) = Inr b
     \<and> fst (sb_is_self_inverse (copy_plugin required 0) s4) = Inr s
     \<and> fst (sb_is_reversible (copy_plugin required 0) s5) = Inr r
     \<and> (True \<longleftrightarrow> b = 1) \<and> (False \<longleftrightarrow> s = 1) \<and> (False \<longleftrightarrow> r = 1)"
  using flag_true_iff_export_returns_one [OF copy_plugin_loads] by simp

lemma find_missing:
  assumes "r \<in> set required" "r \<notin> set (present ex)"
  obtains m where "find (\<lambda>r. r \<notin> set (present ex)) required = Some m"
    "m \<in> set required" "m \<notin> set (present ex)"
proof -
  from assms have "find (\<lambda>r. r \<notin> set (present ex)) required \<noteq> None"
    by (auto simp: find_None_iff)
  then obtain m where m: "find (\<lambda>r. r \<notin> set (present ex)) required = Some m" by blast
  then have "m \<in> set required" "m \<notin> set (present ex)"
    by (auto simp: find_Some_iff)
  with m show thesis using that by blast
qed

lemma find_only_missing:
  assumes "find P xs = Some m" "P r" "\<forall>x\<in>set xs. x \<noteq> r \<longrightarrow> \<not> P x"
  shows "m = r"
  using assms by (auto simp: find_Some_iff)

lemma loadWasmEngine_error:
  assumes "worker_load pl (fetch url) new_worker = (ErrorMsg e, w)"
  shows "\<exists>S'. loadWasmEngine pl fetch url p S = (Some (Fail e), S', w) \<and> engines S' = engines S"
  using assms
  by (simp add: loadWasmEngine_def createWorkerForEngine_def onmessage_def Let_def
      loadWasmEngine_resume_def)

text \<open>
  C4. A module that lacks one of the required exports fails the load: the worker answers
  with \<open>Missing export:\<close> and the name of the first missing export in the order of the
  list (the missing export itself when it is the only one), before it calls into the
  plugin at all (its state and call record are unchanged), and \<open>loadWasmEngine\<close> returns
  the failure and leaves the registry as it was.
\<close>

theorem missing_required_export_fails_load:
  assumes "r \<in> set [''sb_encode'', ''sb_alloc'', ''sb_free'', ''sb_get_id'',
                      ''sb_is_binary_safe'', ''sb_is_self_inverse'', ''sb_is_reversible'']"
    and "r \<notin> set (present ex)"
    and "fetch url = Inr (ex, s0)"
  shows "\<exists>m S'. m \<in> set required \<and> m \<notin> set (present ex)
           \<and> find (\<lambda>r. r \<notin> set (present ex)) required = Some m
           \<and> ((\<forall>x\<in>set required. x \<noteq> r \<longrightarrow> x \<in> set (present ex)) \<longrightarrow> m = r)
           \<and> worker_load pl (Inr (ex, s0)) w = (ErrorMsg (''Missing export: '' @ m), w)
           \<and> loadWasmEngine pl fetch url p S
                = (Some (Fail (''Missing export: '' @ m)), S', new_worker)
           \<and> engines S' = engines S"
proof -
  from assms(1) have "r \<in> set required" by (auto simp: required_def)
  then obtain m where m: "find (\<lambda>r. r \<notin> set (present ex)) required = Some m"
    "m \<in> set required" "m \<notin> set (present ex)"
    using find_missing [OF _ assms(2)] by blast
  have only: "(\<forall>x\<in>set required. x \<noteq> r \<longrightarrow> x \<in> set (present ex)) \<longrightarrow> m = r"
    using find_only_missing [OF m(1), of r] assms(2) by blast
  have wl: "worker_load pl (Inr (ex, s0)) w' = (ErrorMsg (''Missing export: '' @ m), w')" for w'
    using m(1) by (simp add: worker_load_def)
  from wl [of new_worker] assms(3)
  obtain S' where "loadWasmEngine pl fetch url p S
       = (Some (Fail (''Missing export: '' @ m)), S', new_worker)" "engines S' = engines S"
    using loadWasmEngine_error [of pl fetch url _ new_worker] by metis
  with m only wl show ?thesis by blast
qed

theorem missing_required_export_fails_load_witness:
  "\<exists>m S'. m \<in> set required \<and> m \<notin> set (present (copy_plugin (remove1 ''sb_free'' required) 0))
     \<and> find (\<lambda>r. r \<notin> set (present (copy_plugin (remove1 ''sb_free'' required) 0))) required = Some m
     \<and> m = ''sb_free''
     \<and> worker_load sample_platform (Inr (copy_plugin (remove1 ''sb_free'' required) 0, copy_instance)) new_worker
          = (ErrorMsg (''Missing export: '' @ m), new_worker)
     \<and> loadWasmEngine sample_platform (\<lambda>u. Inr (copy_plugin (remove1 ''sb_free'' required) 0, copy_instance))
          ''engines/broken.wasm'' False S_init
          = (Some (Fail (''Missing export: '' @ m)), S', new_worker)
     \<and> engines S' = engines S_init"
proof -
  let ?ex = "copy_plugin (remove1 ''sb_free'' required) 0"
  have 1: "''sb_free'' \<in> set [''sb_encode'', ''sb_alloc'', ''sb_free'', ''sb_get_id'',
                      ''sb_is_binary_safe'', ''sb_is_self_inverse'', ''sb_is_reversible'']"
    by simp
  have 2: "''sb_free'' \<notin> set (present ?ex)" by (simp add: copy_plugin_def required_def)
  have 3: "\<forall>x\<in>set required. x \<noteq> ''sb_free'' \<longrightarrow> x \<in> set (present ?ex)"
    by (simp add: copy_plugin_def required_def)
  show ?thesis
    using missing_required_export_fails_load [OF 1 2, of "\<lambda>u. Inr (?ex, copy_instance)"
        "''engines/broken.wasm''" copy_instance sample_platform new_worker False S_init] 3
    by blast
qed

text \<open>
  C3 (the code does not do what the specification says). A module whose \<open>sb_is_reversible\<close> returns 1 and
  that does not export \<open>sb_decode\<close> loads and is registered as reversible; a later decode
  request fails only when the worker calls the absent export.
\<close>

theorem reversible_without_decode_loads:
  "''sb_decode'' \<notin> set (present (copy_plugin required 1))
   \<and> fst (worker_load sample_platform (Inr (copy_plugin required 1, copy_instance)) new_worker)
       = Loaded \<lparr>eid = ''copy'', ename = ''copy'', desc = [], binarySafe = True,
                 selfInverse = False, reversible = True\<rparr>
   \<and> fst (loadWasmEngine sample_platform (\<lambda>u. Inr (copy_plugin required 1, copy_instance))
             ''engines/copy.wasm'' True S_init)
       = Some (Ok \<lparr>eid = ''copy'', ename = ''copy'', desc = [], binarySafe = True,
                   selfInverse = False, reversible = True, isPreset = True, worker = 0\<rparr>)
   \<and> fst (worker_transform sample_platform 1 Decode [1, 2, 3] True
             (snd (worker_load sample_platform (Inr (copy_plugin required 1, copy_instance))
                     new_worker)))
       = [(1, ErrorMsg ''wasmExports[fnName] is not a function'')]"
  by (simp add: sample_defs loadWasmEngine_def createWorkerForEngine_def onmessage_def
      loadWasmEngine_resume_def S_init_def worker_transform_def abi_transform_def call_codec_def
      transform_try_def transform_finally_def transform_messages_def emit_def)

text \<open>
  The two zero checks of lines 62 and 66. A zero pointer from the first allocation ends
  the call with \<open>sb_alloc failed\<close>, nothing having been obtained; a zero pointer from the
  second ends it with \<open>sb_alloc for outLenPtr failed\<close> after the input buffer was freed.
\<close>

lemma first_alloc_zero_fails:
  assumes "sb_alloc ex (length chunk) s = (Inr 0, s')"
  shows "abi_transform pl ex ty chunk (s, l)
         = ((Inl ''sb_alloc failed'', None), s', l @ [Alloc (length chunk) 0])"
  using assms by (simp add: abi_transform_def call_alloc_def)

lemma second_alloc_zero_frees_input:
  assumes "sb_alloc ex (length chunk) s = (Inr inPtr, s1)" and "inPtr \<noteq> 0"
    and "write_bytes pl chunk inPtr s1 = Inr s2"
    and "sb_alloc ex 4 s2 = (Inr 0, s3)"
    and "sb_free ex inPtr (length chunk) s3 = (Inr u, s4)"
  shows "abi_transform pl ex ty chunk (s, l)
         = ((Inl ''sb_alloc for outLenPtr failed'', None), s4,
            l @ [Alloc (length chunk) inPtr, Alloc 4 0, Free inPtr (length chunk)])"
  using assms by (simp add: abi_transform_def call_alloc_def call_free_def)

text \<open>
  C8 (the code does not do what the specification says). The input buffer is not freed
  on every exit path. The copy in (line 63) and the second \<open>sb_alloc\<close> (line 65) stand
  between the first allocation and the \<open>try\<close>: when the plugin's pointer leaves no room
  for the chunk the copy throws, when the second allocation traps it throws, and either
  way the call ends with the input buffer still in the allocator's ledger and no
  \<open>sb_free\<close> called. A call that reaches the \<open>try\<close> block frees both buffers, and the
  zero checks behave as specified.
\<close>

theorem input_buffer_leaks_before_try:
  "fst (abi_transform sample_platform (ledger_plugin False) Encode [1, 2, 3]
          (ledger_instance 62, []))
     = (Inl ''offset is out of bounds'', None)
   \<and> snd (snd (abi_transform sample_platform (ledger_plugin False) Encode [1, 2, 3]
                 (ledger_instance 62, [])))
     = [Alloc 3 62]
   \<and> live_blocks (fst (snd (abi_transform sample_platform (ledger_plugin False) Encode [1, 2, 3]
                             (ledger_instance 62, []))))
     = [(62, 3)]
   \<and> fst (abi_transform sample_platform (ledger_plugin True) Encode [1, 2, 3]
            (ledger_instance 60, []))
     = (Inl ''unreachable'', None)
   \<and> snd (snd (abi_transform sample_platform (ledger_plugin True) Encode [1, 2, 3]
                 (ledger_instance 60, [])))
     = [Alloc 3 60, Trap ''sb_alloc'']
   \<and> live_blocks (fst (snd (abi_transform sample_platform (ledger_plugin True) Encode [1, 2, 3]
                             (ledger_instance 60, []))))
     = [(60, 3)]
   \<and> fst (abi_transform sample_platform (ledger_plugin True) Encode [1, 2, 3, 4]
            (ledger_instance 16, []))
     = (Inr (Some [1, 2, 3, 4]), None)
   \<and> snd (snd (abi_transform sample_platform (ledger_plugin True) Encode [1, 2, 3, 4]
                 (ledger_instance 16, [])))
     = [Alloc 4 16, Alloc 4 20, Codec Encode (Inr 16), Free 16 4, Free 20 4]
   \<and> live_blocks (fst (snd (abi_transform sample_platform (ledger_plugin True) Encode
                             [1, 2, 3, 4] (ledger_instance 16, []))))
     = []"
  by (simp add: abi_transform_def transform_try_def transform_finally_def call_codec_def
      call_alloc_def call_free_def and_then_def ledger_plugin_def ledger_alloc_def
      ledger_free_def ledger_instance_def live_blocks_def sample_platform_def write_bytes_def
      read_u32_def read_bytes_def view_ok_def put_len_def poke_def le32_def required_def
      Let_def upt_conv_Cons)

section \<open>Properties of the registry\<close>

lemma length_filter_key_update:
  "distinct (map fst al) \<Longrightarrow>
   length (filter (\<lambda>kv. fst kv = k) (AList.update k v al)) = 1"
proof (induction al)
  case Nil
  then show ?case by simp
next
  case (Cons a al)
  then show ?case
  proof (cases "fst a = k")
    case True
    with Cons.prems have "filter (\<lambda>kv. fst kv = k) al = []"
      by (auto simp: filter_empty_conv image_iff)
    with True show ?thesis by simp
  next
    case False
    with Cons show ?thesis by simp
  qed
qed

text \<open>
  C5. Loading an engine whose id is already registered leaves exactly one entry for that
  id, the new engine with the new worker, and the old entry's worker is terminated before
  the new entry is set; the keys of the registry stay unique.
\<close>

theorem duplicate_id_replaces_entry:
  assumes "registry_ok S"
    and "map_of (engines S) (eid info) = Some old"
    and "loadWasmEngine_resume p w (Inr info) S = (r, S')"
  shows "registry_ok S'
       \<and> length (filter (\<lambda>kv. fst kv = eid info) (engines S')) = 1
       \<and> (\<exists>engine. r = Ok engine \<and> worker engine = w \<and> eid engine = eid info
                  \<and> map_of (engines S') (eid info) = Some engine)
       \<and> trace S' = trace S @ [Print (Overwritten (eid info)), Terminate (worker old),
                                SetEngine (eid info) w]"
  using assms
  by (auto simp: loadWasmEngine_resume_def registry_ok_def Let_def distinct_update
      length_filter_key_update update_conv')


theorem duplicate_id_replaces_entry_witness:
  "registry_ok S_one
   \<and> map_of (engines S_one) (eid copy_info)
       = Some (engine_info.extend copy_info \<lparr>isPreset = True, worker = 0\<rparr>)
   \<and> length (filter (\<lambda>kv. fst kv = ''copy'')
         (engines (snd (loadWasmEngine_resume False 1 (Inr copy_info) S_one)))) = 1
   \<and> trace (snd (loadWasmEngine_resume False 1 (Inr copy_info) S_one))
       = [Print (Overwritten ''copy''), Terminate 0, SetEngine ''copy'' 1]"
proof -
  let ?old = "engine_info.extend copy_info \<lparr>isPreset = True, worker = 0\<rparr>"
  have 1: "registry_ok S_one" by (simp add: registry_ok_def S_one_def)
  have 2: "map_of (engines S_one) (eid copy_info) = Some ?old"
    by (simp add: S_one_def copy_info_def)
  have 3: "loadWasmEngine_resume False 1 (Inr copy_info) S_one
           = (fst (loadWasmEngine_resume False 1 (Inr copy_info) S_one),
              snd (loadWasmEngine_resume False 1 (Inr copy_info) S_one))" by simp
  have 4: "eid copy_info = ''copy''" "worker ?old = 0" "trace S_one = []"
    by (simp_all add: copy_info_def S_one_def engine_info.extend_def)
  show ?thesis using duplicate_id_replaces_entry [OF 1 2 3] 1 2 4 by simp
qed

text \<open>
  C1 (the code does not do what the specification says). \<open>loadWasmEngine\<close> does not run the validation
  self-test: a module whose \<open>sb_encode\<close> produces no output, which the self-test's first
  step rejects, is registered; the only message the host posts to the new worker is the
  \<open>load\<close> request, the worker never calls the codec, and nothing is printed.
\<close>

theorem load_installs_without_validation:
  "fst (loadWasmEngine sample_platform (\<lambda>u. Inr (mute_plugin, copy_instance)) ''engines/mute.wasm'' False S_init)
     = Some (Ok (engine_info.extend copy_info \<lparr>isPreset = False, worker = 0\<rparr>))
   \<and> engines (fst (snd (loadWasmEngine sample_platform (\<lambda>u. Inr (mute_plugin, copy_instance))
                          ''engines/mute.wasm'' False S_init)))
       = [(''copy'', engine_info.extend copy_info \<lparr>isPreset = False, worker = 0\<rparr>)]
   \<and> trace (fst (snd (loadWasmEngine sample_platform (\<lambda>u. Inr (mute_plugin, copy_instance))
                          ''engines/mute.wasm'' False S_init)))
       = [NewWorker 0,
          Post 0 \<lparr>req_id = 0, req_type = Load, req_payload = LoadPayload ''engines/mute.wasm''\<rparr>,
          SetEngine ''copy'' 0]
   \<and> abi_log (snd (snd (loadWasmEngine sample_platform (\<lambda>u. Inr (mute_plugin, copy_instance))
                          ''engines/mute.wasm'' False S_init)))
       = [Alloc 4 16, Getter ''sb_get_id'' 4, Free 16 4, Flag ''sb_is_binary_safe'' 1,
          Flag ''sb_is_self_inverse'' 2, Flag ''sb_is_reversible'' 0]
   \<and> fst (worker_transform sample_platform 1 Encode testStr True
            (snd (snd (loadWasmEngine sample_platform (\<lambda>u. Inr (mute_plugin, copy_instance))
                          ''engines/mute.wasm'' False S_init))))
       = [(1, ResultMsg)]"
  by (simp add: sample_defs mute_plugin_def loadWasmEngine_def createWorkerForEngine_def
      onmessage_def loadWasmEngine_resume_def S_init_def worker_transform_def abi_transform_def
      call_codec_def transform_try_def transform_finally_def transform_messages_def
      emit_def copy_info_def engine_info.extend_def testStr_def)


section \<open>Properties of the requests\<close>

text \<open>
  C9. An operation against an engine id that is not registered fails with
  \<open>Engine not found\<close> and posts no message to any worker (so no worker runs, and nothing
  is allocated through the ABI): \<open>callEngine\<close> leaves the host state as it was,
  \<open>processFile\<close> only prints its line; neither draws a request id.
\<close>

theorem unregistered_engine_not_found:
  assumes "map_of (engines S) engineId = None"
  shows "callEngine engineId ty input S = (Inl ''Engine not found'', S)
       \<and> fst (processFile cs file' engineId mode' S) = Inl ''Engine not found''
       \<and> posts (snd (processFile cs file' engineId mode' S)) = posts S
       \<and> nextRequestId (snd (processFile cs file' engineId mode' S)) = nextRequestId S
       \<and> engines (snd (processFile cs file' engineId mode' S)) = engines S"
  using assms
  by (simp add: callEngine_def processFile_def Let_def posts_def)

theorem unregistered_engine_not_found_witness:
  "callEngine ''hex'' Encode [1, 2, 3] S_one = (Inl ''Engine not found'', S_one)
   \<and> fst (processFile CHUNK_SIZE [1, 2, 3] ''hex'' Encode S_one) = Inl ''Engine not found''
   \<and> posts (snd (processFile CHUNK_SIZE [1, 2, 3] ''hex'' Encode S_one)) = posts S_one"
proof -
  have "map_of (engines S_one) ''hex'' = None" by (simp add: S_one_def)
  from unregistered_engine_not_found [OF this] show ?thesis by blast
qed


lemma perform_ids:
  "posted_ids S = [0..<nextRequestId S] \<Longrightarrow>
   posted_ids (perform o' S) = [0..<nextRequestId (perform o' S)]"
proof (cases o')
  case (OpCreateWorker url)
  assume "posted_ids S = [0..<nextRequestId S]"
  then show ?thesis using OpCreateWorker
    by (simp add: createWorkerForEngine_def Let_def posted_ids_def posts_def)
next
  case (OpResume x21 x22 x23)
  assume "posted_ids S = [0..<nextRequestId S]"
  then show ?thesis using OpResume
    by (auto simp: loadWasmEngine_resume_def Let_def posted_ids_def posts_def split: sum.splits option.splits)
next
  case (OpCall x31 x32 x33)
  assume "posted_ids S = [0..<nextRequestId S]"
  then show ?thesis using OpCall
    by (auto simp: callEngine_def Let_def posted_ids_def posts_def split: option.splits)
next
  case (OpProcessFile x41 x42 x43 x44)
  assume "posted_ids S = [0..<nextRequestId S]"
  then show ?thesis using OpProcessFile
    by (auto simp: processFile_def Let_def posted_ids_def posts_def split: option.splits)
next
  case (OpReaderLoad x51 x52)
  assume "posted_ids S = [0..<nextRequestId S]"
  then show ?thesis using OpReaderLoad
    by (auto simp: reader_onload_def Let_def posted_ids_def posts_def)
qed

lemma fold_perform_ids:
  "posted_ids S = [0..<nextRequestId S] \<Longrightarrow>
   posted_ids (fold perform ops S) = [0..<nextRequestId (fold perform ops S)]"
  by (induction ops arbitrary: S) (simp_all add: perform_ids)


text \<open>
  C7. Every request id is drawn from the one counter \<open>S.nextRequestId\<close>. Each operation
  that issues a request (the load in \<open>createWorkerForEngine\<close>, the single call in
  \<open>callEngine\<close>, each chunk in \<open>reader.onload\<close>) takes the counter's value as the id of the
  request it posts and of the listener it attaches, and leaves the counter one higher.
  So, with the ids posted so far being \<open>0, 1, \<dots>\<close> up to the counter, the id drawn is none
  of them, whether their requests are still pending or not, and the same holds after
  every host operation; from the initial state the ids posted are strictly increasing.
\<close>

theorem every_request_draws_the_next_id:
  assumes "posted_ids S = [0..<nextRequestId S]"
    and "map_of (engines S) engineId = Some engine"
  shows "snd (fst (createWorkerForEngine url S)) = nextRequestId S
       \<and> posts (snd (createWorkerForEngine url S))
           = posts S @ [(workers S, \<lparr>req_id = nextRequestId S, req_type = Load,
                                     req_payload = LoadPayload url\<rparr>)]
       \<and> nextRequestId (snd (createWorkerForEngine url S)) = nextRequestId S + 1
       \<and> (\<exists>c S'. callEngine engineId ty input S
                    = (Inr (\<lparr>req_id = nextRequestId S, req_type = ty,
                              req_payload = ChunkPayload input True None\<rparr>, c), S')
               \<and> c_requestId c = nextRequestId S \<and> c_listening c
               \<and> posts S' = posts S @ [(worker engine,
                                           \<lparr>req_id = nextRequestId S, req_type = ty,
                                            req_payload = ChunkPayload input True None\<rparr>)]
               \<and> nextRequestId S' = nextRequestId S + 1)
       \<and> req_id (fst (reader_onload cs p S)) = nextRequestId S
       \<and> listeners (fst (snd (reader_onload cs p S))) = listeners p @ [nextRequestId S]
       \<and> posts (snd (snd (reader_onload cs p S)))
           = posts S @ [(pf_worker p, fst (reader_onload cs p S))]
       \<and> nextRequestId (snd (snd (reader_onload cs p S))) = nextRequestId S + 1
       \<and> nextRequestId S \<notin> set (posted_ids S)
       \<and> posted_ids (perform o' S) = [0..<nextRequestId (perform o' S)]
       \<and> posted_ids (fold perform ops S_init) = [0..<nextRequestId (fold perform ops S_init)]
       \<and> sorted_wrt (<) (posted_ids (fold perform ops S_init))
       \<and> distinct (posted_ids (fold perform ops S_init))"
proof -
  have a: "snd (fst (createWorkerForEngine url S)) = nextRequestId S"
    "posts (snd (createWorkerForEngine url S))
           = posts S @ [(workers S, \<lparr>req_id = nextRequestId S, req_type = Load,
                                     req_payload = LoadPayload url\<rparr>)]"
    "nextRequestId (snd (createWorkerForEngine url S)) = nextRequestId S + 1"
    by (simp_all add: createWorkerForEngine_def Let_def posts_def)
  have b: "\<exists>c S'. callEngine engineId ty input S
                    = (Inr (\<lparr>req_id = nextRequestId S, req_type = ty,
                              req_payload = ChunkPayload input True None\<rparr>, c), S')
               \<and> c_requestId c = nextRequestId S \<and> c_listening c
               \<and> posts S' = posts S @ [(worker engine,
                                           \<lparr>req_id = nextRequestId S, req_type = ty,
                                            req_payload = ChunkPayload input True None\<rparr>)]
               \<and> nextRequestId S' = nextRequestId S + 1"
    using assms(2) by (simp add: callEngine_def Let_def posts_def)
  have c: "req_id (fst (reader_onload cs p S)) = nextRequestId S"
    "listeners (fst (snd (reader_onload cs p S))) = listeners p @ [nextRequestId S]"
    "posts (snd (snd (reader_onload cs p S)))
           = posts S @ [(pf_worker p, fst (reader_onload cs p S))]"
    "nextRequestId (snd (snd (reader_onload cs p S))) = nextRequestId S + 1"
    by (simp_all add: reader_onload_def Let_def posts_def)
  have d: "nextRequestId S \<notin> set (posted_ids S)" using assms(1) by simp
  have e: "posted_ids (perform o' S) = [0..<nextRequestId (perform o' S)]"
    by (rule perform_ids [OF assms(1)])
  have "posted_ids S_init = [0..<nextRequestId S_init]"
    by (simp add: S_init_def posted_ids_def posts_def)
  then have f: "posted_ids (fold perform ops S_init)
                = [0..<nextRequestId (fold perform ops S_init)]"
    by (rule fold_perform_ids)
  then have g: "sorted_wrt (<) (posted_ids (fold perform ops S_init))"
    "distinct (posted_ids (fold perform ops S_init))"
    by (simp_all add: sorted_wrt_upt)
  from a b c d e f g show ?thesis by blast
qed

theorem every_request_draws_the_next_id_witness:
  "snd (fst (createWorkerForEngine ''engines/hex.wasm'' S_loaded)) = 1
   \<and> (\<exists>c S'. callEngine ''copy'' Encode [1, 2, 3] S_loaded
                = (Inr (\<lparr>req_id = 1, req_type = Encode,
                          req_payload = ChunkPayload [1, 2, 3] True None\<rparr>, c), S')
           \<and> c_requestId c = 1 \<and> nextRequestId S' = 2)
   \<and> (1::nat) \<notin> set (posted_ids S_loaded)"
proof -
  have 1: "posted_ids S_loaded = [0..<nextRequestId S_loaded]"
    by (simp add: S_loaded_def S_init_def createWorkerForEngine_def loadWasmEngine_resume_def
        copy_info_def posted_ids_def posts_def Let_def)
  have 2: "map_of (engines S_loaded) ''copy''
           = Some (engine_info.extend copy_info \<lparr>isPreset = True, worker = 0\<rparr>)"
    by (simp add: S_loaded_def S_init_def createWorkerForEngine_def loadWasmEngine_resume_def
        copy_info_def engine_info.extend_def Let_def)
  have 3: "nextRequestId S_loaded = 1"
    by (simp add: S_loaded_def S_init_def createWorkerForEngine_def loadWasmEngine_resume_def
        copy_info_def Let_def)
  have "snd (fst (createWorkerForEngine ''engines/hex.wasm'' S_loaded)) = nextRequestId S_loaded"
    and "\<exists>c S'. callEngine ''copy'' Encode [1, 2, 3] S_loaded
                = (Inr (\<lparr>req_id = nextRequestId S_loaded, req_type = Encode,
                          req_payload = ChunkPayload [1, 2, 3] True None\<rparr>, c), S')
           \<and> c_requestId c = nextRequestId S_loaded
           \<and> nextRequestId S' = nextRequestId S_loaded + 1"
    and "nextRequestId S_loaded \<notin> set (posted_ids S_loaded)"
    using every_request_draws_the_next_id [OF 1 2, of "''engines/hex.wasm''" Encode "[1, 2, 3]"]
    by blast+
  then show ?thesis unfolding 3 by (simp add: numeral_2_eq_2)
qed

section \<open>Properties of the chunked pipeline\<close>

lemma fold_pf_handler_fields:
  "pf_file (fold (\<lambda>r. pf_handler r m) ls p) = pf_file p
   \<and> pf_mode (fold (\<lambda>r. pf_handler r m) ls p) = pf_mode p
   \<and> totalChunks (fold (\<lambda>r. pf_handler r m) ls p) = totalChunks p
   \<and> offset (fold (\<lambda>r. pf_handler r m) ls p) = offset p
   \<and> reading (fold (\<lambda>r. pf_handler r m) ls p) = reading p"
  by (induction ls arbitrary: p) (auto simp: pf_handler_def split: response.splits)

lemma pf_onmessage_fields:
  "pf_file (pf_onmessage m p) = pf_file p" "pf_mode (pf_onmessage m p) = pf_mode p"
  "totalChunks (pf_onmessage m p) = totalChunks p" "offset (pf_onmessage m p) = offset p"
  "reading (pf_onmessage m p) = reading p"
  using fold_pf_handler_fields [of m "listeners p" p] by (simp_all add: pf_onmessage_def)

lemma step_Deliver_Nil: "inflight sys = [] \<Longrightarrow> step cs respond Deliver sys = sys"
  by (simp add: step_def)

lemma step_Deliver_Cons:
  "inflight sys = m # ms \<Longrightarrow>
   step cs respond Deliver sys
     = sys\<lparr>op := pf_onmessage m (op sys), inflight := ms, history := history sys @ [Received m]\<rparr>"
  by (simp add: step_def)

lemma step_ReaderLoad_idle: "\<not> reading (op sys) \<Longrightarrow> step cs respond ReaderLoad sys = sys"
  by (simp add: step_def)

lemma step_ReaderLoad:
  assumes "reading (op sys)"
  shows "step cs respond ReaderLoad sys =
     (let p = op sys; S = hostS sys;
          req = \<lparr>req_id = nextRequestId S, req_type = pf_mode p,
                 req_payload = ChunkPayload (take cs (drop (offset p) (pf_file p)))
                                 (offset p + cs \<ge> length (pf_file p)) (Some (totalChunks p))\<rparr>
      in \<lparr>hostS = S\<lparr>nextRequestId := nextRequestId S + 1,
                      trace := trace S @ [Post (pf_worker p) req]\<rparr>,
          op = p\<lparr>listeners := listeners p @ [nextRequestId S], offset := offset p + cs,
                 chunkIndex := chunkIndex p + 1,
                 reading := (offset p + cs < length (pf_file p))\<rparr>,
          ctx = snd (respond req (ctx sys)),
          inflight = inflight sys @ fst (respond req (ctx sys)),
          history = history sys @ [Sent req]\<rparr>)"
  using assms by (simp add: step_def reader_onload_def Let_def split: prod.splits)

lemma step_sending:
  assumes "sending cs f m base k sys" "ev \<noteq> ReaderError"
  shows "sending cs f m base (next_k cs (length f) ev k) (step cs respond ev sys)"
proof (cases ev)
  case ReaderLoad
  show ?thesis
  proof (cases "k * cs < length f")
    case True
    with assms(1) have r: "reading (op sys)" by (simp add: sending_def)
    from assms(1) True show ?thesis
      unfolding ReaderLoad step_ReaderLoad [OF r]
      by (simp add: sending_def Let_def sent_def chunk_request_def add.commute)
  next
    case False
    with assms(1) have r: "\<not> reading (op sys)" by (simp add: sending_def)
    from assms(1) False show ?thesis
      unfolding ReaderLoad step_ReaderLoad_idle [OF r] by simp
  qed
next
  case ReaderError
  with assms(2) show ?thesis by simp
next
  case Deliver
  show ?thesis
  proof (cases "inflight sys")
    case Nil
    with assms(1) show ?thesis unfolding Deliver by (simp add: step_Deliver_Nil)
  next
    case (Cons a list)
    with assms(1) show ?thesis unfolding Deliver
      by (simp add: step_Deliver_Cons sending_def pf_onmessage_fields sent_def)
  qed
qed

lemma run_sending:
  assumes "sending cs f m base k sys" "ReaderError \<notin> set evs"
  shows "sending cs f m base (fold (next_k cs (length f)) evs k) (run cs respond evs sys)"
  using assms
proof (induction evs arbitrary: k sys)
  case Nil
  then show ?case by (simp add: run_def)
next
  case (Cons ev evs)
  from Cons.prems have "sending cs f m base (next_k cs (length f) ev k) (step cs respond ev sys)"
    by (intro step_sending) auto
  from Cons.IH [OF this] Cons.prems(2) show ?case by (simp add: run_def)
qed

lemma total_iff: "0 < cs \<Longrightarrow> k * cs < n \<longleftrightarrow> k < (n + cs - 1) div cs" for k cs n :: nat
proof -
  assume cs: "0 < cs"
  have "k < (n + cs - 1) div cs \<longleftrightarrow> Suc k \<le> (n + cs - 1) div cs" by auto
  also have "\<dots> \<longleftrightarrow> Suc k * cs \<le> n + cs - 1" using cs by (simp add: less_eq_div_iff_mult_less_eq)
  also have "\<dots> \<longleftrightarrow> k * cs < n" using cs by auto
  finally show ?thesis ..
qed

lemma fold_next_k:
  assumes "0 < cs" "k \<le> (n + cs - 1) div cs"
  shows "fold (next_k cs n) evs k = min (k + count_list evs ReaderLoad) ((n + cs - 1) div cs)"
  using assms(2)
proof (induction evs arbitrary: k)
  case Nil
  then show ?case by simp
next
  case (Cons ev evs)
  show ?case
  proof (cases ev)
    case ReaderLoad
    show ?thesis
    proof (cases "k * cs < n")
      case True
      then have "k + 1 \<le> (n + cs - 1) div cs" using total_iff [OF assms(1), of k n] by simp
      from Cons.IH [OF this] True show ?thesis by (simp add: ReaderLoad)
    next
      case False
      then have "k = (n + cs - 1) div cs" using total_iff [OF assms(1), of k n] Cons.prems by simp
      with Cons.IH [OF Cons.prems] False show ?thesis by (simp add: ReaderLoad)
    qed
  next
    case ReaderError
    with Cons.IH [OF Cons.prems] show ?thesis by simp
  next
    case Deliver
    with Cons.IH [OF Cons.prems] show ?thesis by simp
  qed
qed

lemma processFile_sending:
  assumes "processFile cs f engineId m S = (Inr p, S1)"
  shows "sending cs f m (nextRequestId S) 0
           \<lparr>hostS = S1, op = p, ctx = w, inflight = [], history = []\<rparr>"
  using assms
  by (auto simp: processFile_def Let_def sending_def sent_def split: option.splits)

















text \<open>
  The worker above answers with \<open>reply T\<close> whenever the plugin's call yields \<open>T\<close> of the
  chunk.
\<close>

lemma worker_answers_with_reply:
  assumes "wasmExports w = Some (ex, s)" and "ty \<noteq> Load"
    and "fst (abi_transform pl ex ty chunk (s, abi_log w))
           = (Inr (if T chunk = [] then None else Some (T chunk)), None)"
  shows "fst (onmessage pl fetch
                \<lparr>req_id = rid, req_type = ty, req_payload = ChunkPayload chunk isLast tc\<rparr> w)
         = reply T rid isLast chunk"
proof -
  obtain outcome s' l' where a: "abi_transform pl ex ty chunk (s, abi_log w) = (outcome, s', l')"
    by (metis prod_cases3)
  with assms(3) have "outcome = (Inr (if T chunk = [] then None else Some (T chunk)), None)"
    by simp
  with a assms(1,2) show ?thesis
    by (cases ty) (simp_all add: onmessage_def worker_transform_def transform_messages_def reply_def)
qed



text \<open>
  C2, as the specification states it, fails. For a file of two chunks the reader can load
  the second slice before any message of the context has arrived: the host then posts
  the second chunk while the first request has had no \<open>result\<close> and no \<open>error\<close>. And when
  every message the context sends for the first chunk is delivered first, that is a
  \<open>chunk\<close> message only, since \<open>result\<close> is sent for the last chunk alone: the second chunk
  is again posted with no terminal message for the first.
\<close>

theorem host_does_not_wait_counterexample:
  "\<not> isl (fst (processFile CHUNK_SIZE two_chunk_file ''copy'' Encode S_one))
   \<and> \<not> waits_for_response
         (history (run CHUNK_SIZE echo_respond [ReaderLoad, ReaderLoad]
                     (begin_chunked CHUNK_SIZE two_chunk_file ''copy'' Encode S_one ())))
   \<and> \<not> waits_for_response
         (history (run CHUNK_SIZE echo_respond [ReaderLoad, Deliver, Deliver, ReaderLoad]
                     (begin_chunked CHUNK_SIZE two_chunk_file ''copy'' Encode S_one ())))"
  by (simp add: processFile_def S_one_def two_chunk_file_def CHUNK_SIZE_def begin_chunked_def
      run_def step_def reader_onload_def echo_respond_def waits_for_response_def Let_def
      reply_def emit_def pf_onmessage_def pf_handler_def terminal_def)

text \<open>
  C2, amended. During a chunked operation the host posts the chunks in file order, one
  each time the reader has loaded the next slice, each under the next request id, and
  does not wait for responses: after any events without a read error, the requests sent
  are the first requests of the file, as many as slices were loaded, whatever messages
  have or have not been delivered and whatever the context answers.
\<close>

theorem chunks_sent_in_order_without_waiting:
  assumes "0 < cs" and "ReaderError \<notin> set evs"
    and "processFile cs f engineId m S = (Inr p, S1)"
  shows "sent (history (run cs respond evs
                 \<lparr>hostS = S1, op = p, ctx = w, inflight = [], history = []\<rparr>))
         = take (count_list evs ReaderLoad) (all_requests cs f m (nextRequestId S))"
proof -
  let ?n = "(length f + cs - 1) div cs"
  let ?k = "fold (next_k cs (length f)) evs 0"
  have k: "?k = min (count_list evs ReaderLoad) ?n"
    using fold_next_k [OF assms(1), of 0 "length f" evs] by simp
  have "sending cs f m (nextRequestId S) ?k
          (run cs respond evs \<lparr>hostS = S1, op = p, ctx = w, inflight = [], history = []\<rparr>)"
    by (rule run_sending [OF processFile_sending [OF assms(3)] assms(2)])
  then have "sent (history (run cs respond evs
                 \<lparr>hostS = S1, op = p, ctx = w, inflight = [], history = []\<rparr>))
             = map (chunk_request cs f m (nextRequestId S)) [0..<?k]"
    by (simp add: sending_def)
  also have "\<dots> = take (count_list evs ReaderLoad) (all_requests cs f m (nextRequestId S))"
    by (cases "count_list evs ReaderLoad \<le> ?n")
       (simp_all add: all_requests_def k take_map min_def)
  finally show ?thesis .
qed



theorem chunks_sent_in_order_without_waiting_witness:
  "sent (history (run 2 echo_respond [ReaderLoad, ReaderLoad]
           (begin_chunked 2 [1, 2, 3] ''copy'' Encode S_one ())))
   = [\<lparr>req_id = 1, req_type = Encode, req_payload = ChunkPayload [1, 2] False (Some 2)\<rparr>,
      \<lparr>req_id = 2, req_type = Encode, req_payload = ChunkPayload [3] True (Some 2)\<rparr>]"
proof -
  let ?r = "processFile 2 [1, 2, 3] ''copy'' Encode S_one"
  have isr: "\<not> isl (fst ?r)" by (simp add: processFile_def S_one_def Let_def)
  have 3: "?r = (Inr (projr (fst ?r)), snd ?r)"
    using isr by (cases "fst ?r") (simp_all add: prod_eq_iff)
  have 1: "(0::nat) < 2" by simp
  have 2: "ReaderError \<notin> set [ReaderLoad, ReaderLoad]" by simp
  have n: "nextRequestId S_one = 1" by (simp add: S_one_def)
  have a: "take (count_list [ReaderLoad, ReaderLoad] ReaderLoad) (all_requests 2 [1, 2, 3] Encode 1)
      = [\<lparr>req_id = 1, req_type = Encode, req_payload = ChunkPayload [1, 2] False (Some 2)\<rparr>,
      \<lparr>req_id = 2, req_type = Encode, req_payload = ChunkPayload [3] True (Some 2)\<rparr>]"
    by (simp add: all_requests_def chunk_request_def upt_conv_Cons)
  from chunks_sent_in_order_without_waiting [OF 1 2 3, of echo_respond "()"] n a
  show ?thesis by (simp add: begin_chunked_def)
qed




end
